theory Spec2Isabelle
  imports Complex_Main
begin

section \<open>Browser interaction skills of Agent-E: click and text entry\<close>

text \<open>
  The skills in \<^verbatim>\<open>ae/core/skills/click_using_selector.py\<close> and
  \<^verbatim>\<open>ae/core/skills/enter_text_using_selector.py\<close> are coroutines that drive a browser
  page through the Playwright API. They are embedded here as functions over an explicit
  log of the calls they make to the browser, with the answer of every call supplied by
  an arbitrary deterministic environment. Exceptions are values, \<open>try/except\<close> is a
  combinator, and the scripts the skills evaluate inside the page are embedded as well,
  down to the DOM operations they perform.

  Not modelled: logging and \<open>traceback.print_exc\<close> (no influence on results),
  \<open>BaseException\<close>s that are not \<open>Exception\<close>s (cancellation, interrupts), and
  the floating-point corner values of \<open>wait_before_execution\<close> (it is only compared
  with zero and handed to \<open>asyncio.sleep\<close>, so it is a real number here).
\<close>

subsection \<open>Exceptions, calls and the environment\<close>

datatype exn =
    ValueError string
  | KeyError string
  | TimeoutError string
  | PlaywrightError string

text \<open>
  \<open>str(e)\<close>. For a \<open>KeyError\<close> Python prints the \<open>repr\<close> of the argument, which is
  the argument in quotes when it holds no quote or escape.
\<close>

fun str_exn :: "exn \<Rightarrow> string" where
  "str_exn (ValueError m) = m"
| "str_exn (KeyError m) = CHR 0x27 # m @ [CHR 0x27]"
| "str_exn (TimeoutError m) = m"
| "str_exn (PlaywrightError m) = m"

type_synonym handle = nat
type_synonym page = nat

datatype script = ClickScript | FillScript

text \<open>
  Every interaction with the outside world. The first group are calls of the host
  program (the browser manager, asyncio, Playwright's page, element handles and
  keyboard); the second group are the DOM operations that the two in-page scripts
  perform while they run inside the browser.
\<close>

datatype call =
    GetCurrentPage
  | HighlightElement string bool
  | NotifyUser string
  | Sleep real
  | WaitForSelector page string string nat
  | QuerySelector page string
  | ScrollIntoViewIfNeeded handle nat
  | WaitForElementState handle string nat
  | ElementEvaluate handle string
  | GetAttribute handle string
  | EvaluateHandle handle string
  | SelectOption handle "string option"
  | Focus handle
  | KeyboardType page string "nat option"
  | PageEvaluate page script "string list"
  | DocQuerySelector string
  | SetProperty handle string string
  | DispatchEvent handle string
  | DomClick handle

text \<open>
  The environment answers a call from the history of the calls made so far, which makes
  it an arbitrary deterministic browser: pages that change over time, elements that
  appear late, operations that fail. An answer is a value or a raised exception.
  Reading a property of a DOM element inside the page has no effect and cannot fail, so
  it is answered from the history without being logged.
\<close>

record env =
  current_page :: "call list \<Rightarrow> page option"
  ret_unit :: "call list \<Rightarrow> call \<Rightarrow> exn option"
  ret_str :: "call list \<Rightarrow> call \<Rightarrow> exn + string"
  ret_str_opt :: "call list \<Rightarrow> call \<Rightarrow> exn + string option"
  ret_handle :: "call list \<Rightarrow> call \<Rightarrow> exn + handle"
  ret_handle_opt :: "call list \<Rightarrow> call \<Rightarrow> exn + handle option"
  dom_prop :: "call list \<Rightarrow> handle \<Rightarrow> string \<Rightarrow> string"
  dom_parent :: "call list \<Rightarrow> handle \<Rightarrow> handle option"
  null_deref :: "call list \<Rightarrow> exn"

subsection \<open>Computations: a log of calls, and a result or an exception\<close>

datatype 'a outcome = Raised exn | Returned 'a

type_synonym 'a io = "call list \<Rightarrow> 'a outcome \<times> call list"

definition io_return :: "'a \<Rightarrow> 'a io" where
  "io_return x = (\<lambda>t. (Returned x, t))"

definition io_raise :: "exn \<Rightarrow> 'a io" where
  "io_raise e = (\<lambda>t. (Raised e, t))"

definition io_bind :: "'a io \<Rightarrow> ('a \<Rightarrow> 'b io) \<Rightarrow> 'b io" where
  "io_bind m f = (\<lambda>t. case m t of
       (Returned x, t') \<Rightarrow> f x t'
     | (Raised e, t') \<Rightarrow> (Raised e, t'))"

text \<open>\<open>try: m except Exception as e: h e\<close>\<close>

definition io_try :: "'a io \<Rightarrow> (exn \<Rightarrow> 'a io) \<Rightarrow> 'a io" where
  "io_try m h = (\<lambda>t. case m t of
       (Returned x, t') \<Rightarrow> (Returned x, t')
     | (Raised e, t') \<Rightarrow> h e t')"

definition of_sum :: "exn + 'a \<Rightarrow> 'a outcome" where
  "of_sum r = (case r of Inl e \<Rightarrow> Raised e | Inr x \<Rightarrow> Returned x)"

definition call_unit :: "env \<Rightarrow> call \<Rightarrow> unit io" where
  "call_unit E c = (\<lambda>t.
     (case ret_unit E t c of None \<Rightarrow> Returned () | Some e \<Rightarrow> Raised e, t @ [c]))"

definition call_str :: "env \<Rightarrow> call \<Rightarrow> string io" where
  "call_str E c = (\<lambda>t. (of_sum (ret_str E t c), t @ [c]))"

definition call_str_opt :: "env \<Rightarrow> call \<Rightarrow> string option io" where
  "call_str_opt E c = (\<lambda>t. (of_sum (ret_str_opt E t c), t @ [c]))"

definition call_handle :: "env \<Rightarrow> call \<Rightarrow> handle io" where
  "call_handle E c = (\<lambda>t. (of_sum (ret_handle E t c), t @ [c]))"

definition call_handle_opt :: "env \<Rightarrow> call \<Rightarrow> handle option io" where
  "call_handle_opt E c = (\<lambda>t. (of_sum (ret_handle_opt E t c), t @ [c]))"

text \<open>Calls that always complete: they are logged and return.\<close>

definition call_total :: "call \<Rightarrow> unit io" where
  "call_total c = (\<lambda>t. (Returned (), t @ [c]))"

subsection \<open>The collaborators' interface\<close>

text \<open>
  Modelled from the spec: the browser manager (\<^verbatim>\<open>ae/core/playwright_manager.py\<close>, the
  class \<open>PlaywrightManager\<close>) is not among the sources. Following section 6 of the
  specification, \<open>get_current_page\<close> yields the current page or none, and
  \<open>highlight_element\<close> and \<open>notify_user\<close> are fire-and-forget feedback whose result
  is not consumed: the three are logged and never raise. Creating the manager has no
  effect of its own.
\<close>

definition get_current_page :: "env \<Rightarrow> page option io" where
  "get_current_page E = (\<lambda>t. (Returned (current_page E t), t @ [GetCurrentPage]))"

definition highlight_element :: "string \<Rightarrow> bool \<Rightarrow> unit io" where
  "highlight_element selector add_highlight = call_total (HighlightElement selector add_highlight)"

definition notify_user :: "string \<Rightarrow> unit io" where
  "notify_user message = call_total (NotifyUser message)"

text \<open>\<open>asyncio.sleep\<close> with a finite delay completes.\<close>

definition asyncio_sleep :: "real \<Rightarrow> unit io" where
  "asyncio_sleep delay = call_total (Sleep delay)"

text \<open>
  \<open>asyncio.wait_for(page.wait_for_selector(selector, state=..., timeout=...), timeout=...)\<close>:
  one wait with one result, the element, none, or a timeout or another error.
\<close>

definition wait_for_selector :: "env \<Rightarrow> page \<Rightarrow> string \<Rightarrow> string \<Rightarrow> nat \<Rightarrow> handle option io" where
  "wait_for_selector E pg selector state timeout = call_handle_opt E (WaitForSelector pg selector state timeout)"

text \<open>\<open>page.query_selector\<close>; the plain name is the field of \<open>EnterTextEntry\<close> below.\<close>

definition query_selector_pw :: "env \<Rightarrow> page \<Rightarrow> string \<Rightarrow> handle option io" where
  "query_selector_pw E pg selector = call_handle_opt E (QuerySelector pg selector)"

definition scroll_into_view_if_needed :: "env \<Rightarrow> handle \<Rightarrow> nat \<Rightarrow> unit io" where
  "scroll_into_view_if_needed E element timeout = call_unit E (ScrollIntoViewIfNeeded element timeout)"

definition wait_for_element_state :: "env \<Rightarrow> handle \<Rightarrow> string \<Rightarrow> nat \<Rightarrow> unit io" where
  "wait_for_element_state E element state timeout = call_unit E (WaitForElementState element state timeout)"

definition element_evaluate :: "env \<Rightarrow> handle \<Rightarrow> string \<Rightarrow> string io" where
  "element_evaluate E element expression = call_str E (ElementEvaluate element expression)"

definition get_attribute :: "env \<Rightarrow> handle \<Rightarrow> string \<Rightarrow> string option io" where
  "get_attribute E element name = call_str_opt E (GetAttribute element name)"

definition evaluate_handle :: "env \<Rightarrow> handle \<Rightarrow> string \<Rightarrow> handle io" where
  "evaluate_handle E element expression = call_handle E (EvaluateHandle element expression)"

definition select_option :: "env \<Rightarrow> handle \<Rightarrow> string option \<Rightarrow> unit io" where
  "select_option E element v = call_unit E (SelectOption element v)"

definition focus :: "env \<Rightarrow> handle \<Rightarrow> unit io" where
  "focus E element = call_unit E (Focus element)"

definition keyboard_type :: "env \<Rightarrow> page \<Rightarrow> string \<Rightarrow> nat option \<Rightarrow> unit io" where
  "keyboard_type E pg txt delay = call_unit E (KeyboardType pg txt delay)"

text \<open>
  \<open>page.evaluate(script, args)\<close>: the evaluation may fail before the script runs (the
  answer to \<open>PageEvaluate\<close>); otherwise the script runs in the page, and an exception it
  throws is raised in the host.
\<close>

definition page_evaluate :: "env \<Rightarrow> page \<Rightarrow> script \<Rightarrow> string list \<Rightarrow> 'a io \<Rightarrow> 'a io" where
  "page_evaluate E pg s args body = io_bind (call_unit E (PageEvaluate pg s args)) (\<lambda>_. body)"

subsection \<open>Inside the page: DOM operations and JavaScript strings\<close>

definition document_querySelector :: "env \<Rightarrow> string \<Rightarrow> handle option io" where
  "document_querySelector E selector = call_handle_opt E (DocQuerySelector selector)"

definition get_property :: "env \<Rightarrow> handle \<Rightarrow> string \<Rightarrow> string io" where
  "get_property E element name = (\<lambda>t. (Returned (dom_prop E t element name), t))"

definition parentElement :: "env \<Rightarrow> handle \<Rightarrow> handle option io" where
  "parentElement E element = (\<lambda>t. (Returned (dom_parent E t element), t))"

text \<open>Using a value as an object: \<open>null\<close> makes the script throw a \<open>TypeError\<close>.\<close>

definition deref :: "env \<Rightarrow> handle option \<Rightarrow> handle io" where
  "deref E target = (case target of
       None \<Rightarrow> (\<lambda>t. (Raised (null_deref E t), t))
     | Some element \<Rightarrow> io_return element)"

definition set_property :: "env \<Rightarrow> handle \<Rightarrow> string \<Rightarrow> string \<Rightarrow> unit io" where
  "set_property E element name v = call_unit E (SetProperty element name v)"

definition dispatchEvent :: "env \<Rightarrow> handle \<Rightarrow> string \<Rightarrow> unit io" where
  "dispatchEvent E element event = call_unit E (DispatchEvent element event)"

definition element_click :: "env \<Rightarrow> handle \<Rightarrow> unit io" where
  "element_click E element = call_unit E (DomClick element)"

text \<open>
  \<open>String.prototype.toLowerCase\<close> on the ASCII letters. A tag name is compared with
  \<open>option\<close> and \<open>a\<close> only, and no character outside ASCII lower-cases to a letter of
  these two words.
\<close>

definition lower_char :: "char \<Rightarrow> char" where
  "lower_char c =
     (let n = (of_char c :: nat) in if 65 \<le> n \<and> n \<le> 90 then char_of (n + 32) else c)"

definition toLowerCase :: "string \<Rightarrow> string" where
  "toLowerCase s = map lower_char s"

subsection \<open>click\_using\_selector.py\<close>

text \<open>
  The function \<open>js_code\<close> that \<open>perform_javascript_click\<close> evaluates in the page, with
  the selector as its argument. \<open>console.log\<close> is not modelled.
\<close>

definition js_code :: "env \<Rightarrow> string \<Rightarrow> string io" where
  "js_code E selector =
     io_bind (document_querySelector E selector) (\<lambda>element.
     case element of
       None \<Rightarrow> io_return (''perform_javascript_click: Element with selector '' @ selector @ '' not found'')
     | Some element \<Rightarrow>
         io_bind (get_property E element ''tagName'') (\<lambda>tagName.
         if toLowerCase tagName = ''option'' then
           io_bind (get_property E element ''text'') (\<lambda>v.
           io_bind (parentElement E element) (\<lambda>parent.
           io_bind (get_property E element ''value'') (\<lambda>element_value.
           io_bind (deref E parent) (\<lambda>parent.
           io_bind (set_property E parent ''value'' element_value) (\<lambda>_.
           io_bind (dispatchEvent E parent ''change'') (\<lambda>_.
           io_return (''Select menu option: '' @ v @ '' selected'')))))))
         else
           io_bind (get_property E element ''tagName'') (\<lambda>tagName.
           io_bind (if toLowerCase tagName = ''a''
                    then set_property E element ''target'' ''_self''
                    else io_return ()) (\<lambda>_.
           io_bind (element_click E element) (\<lambda>_.
           io_return (''Executed JavaScript Click on element with selector: '' @ selector))))))"

text \<open>
  \<open>perform_javascript_click\<close> returns the script's result; when the evaluation raises,
  the handler logs the error and the function ends without a value (\<open>None\<close>).
\<close>

definition perform_javascript_click :: "env \<Rightarrow> page \<Rightarrow> string \<Rightarrow> string option io" where
  "perform_javascript_click E pg selector =
     io_try
       (io_bind (page_evaluate E pg ClickScript [selector] (js_code E selector)) (\<lambda>result.
        io_return (Some result)))
       (\<lambda>e. io_return None)"

text \<open>An f-string field holding an optional string: \<open>None\<close> prints as \<open>None\<close>.\<close>

definition fmt :: "string option \<Rightarrow> string" where
  "fmt v = (case v of None \<Rightarrow> ''None'' | Some s \<Rightarrow> s)"

definition msg_option_selected :: "string option \<Rightarrow> string" where
  \<open>msg_option_selected element_value = ''Select menu option "'' @ fmt element_value @ ''" selected''\<close>

definition msg_clicked :: "string \<Rightarrow> string" where
  \<open>msg_clicked selector = ''Element with selector: "'' @ selector @ ''" clicked.''\<close>

definition msg_unable_to_click :: "string \<Rightarrow> string" where
  \<open>msg_unable_to_click selector =
     ''Unable to click element with selector: "'' @ selector
       @ ''" since the selector is invalid. Proceed by retrieving DOM again.''\<close>

definition do_click :: "env \<Rightarrow> page \<Rightarrow> string \<Rightarrow> real \<Rightarrow> string io" where
  \<open>do_click E pg selector wait_before_execution =
     io_bind (if wait_before_execution > 0 then asyncio_sleep wait_before_execution
              else io_return ()) (\<lambda>_.
     io_try
       (io_bind (wait_for_selector E pg selector ''attached'' 2000) (\<lambda>element.
        case element of
          None \<Rightarrow> io_raise (ValueError (''Element with selector: "'' @ selector @ ''" not found''))
        | Some element \<Rightarrow>
            io_bind (io_try (scroll_into_view_if_needed E element 200) (\<lambda>e. io_return ())) (\<lambda>_.
            io_bind (io_try (wait_for_element_state E element ''visible'' 200) (\<lambda>e. io_return ())) (\<lambda>_.
            io_bind (element_evaluate E element ''element => element.tagName.toLowerCase()'')
              (\<lambda>element_tag_name.
            if element_tag_name = ''option'' then
              io_bind (get_attribute E element ''value'') (\<lambda>element_value.
              io_bind (evaluate_handle E element ''element => element.parentNode'') (\<lambda>parent_element.
              io_bind (select_option E parent_element element_value) (\<lambda>_.
              io_return (msg_option_selected element_value))))
            else
              io_bind (focus E element) (\<lambda>_.
              io_bind (perform_javascript_click E pg selector) (\<lambda>_.
              io_return (msg_clicked selector))))))))
       (\<lambda>e. io_return (msg_unable_to_click selector)))\<close>

definition click :: "env \<Rightarrow> string \<Rightarrow> real \<Rightarrow> string io" where
  "click E selector wait_before_execution =
     io_bind (get_current_page E) (\<lambda>pg.
     case pg of
       None \<Rightarrow> io_raise (ValueError ''No active page found. OpenURL command opens a new page.'')
     | Some pg \<Rightarrow>
         io_bind (highlight_element selector True) (\<lambda>_.
         io_bind (do_click E pg selector wait_before_execution) (\<lambda>result.
         io_bind (notify_user result) (\<lambda>_.
         io_return result))))"

subsection \<open>enter\_text\_using\_selector.py\<close>

record EnterTextEntry =
  query_selector :: string
  entry_text :: string

definition EnterTextEntry_getitem :: "EnterTextEntry \<Rightarrow> string \<Rightarrow> string io" where
  "EnterTextEntry_getitem self key =
     (if key = ''query_selector'' then io_return (query_selector self)
      else if key = ''text'' then io_return (entry_text self)
      else io_raise (KeyError (key @ '' is not a valid key'')))"

text \<open>The script of \<open>custom_fill_element\<close>: \<open>document.querySelector(selector).value = text_to_enter\<close>.\<close>

definition fill_script :: "env \<Rightarrow> string \<Rightarrow> string \<Rightarrow> unit io" where
  "fill_script E selector text_to_enter =
     io_bind (document_querySelector E selector) (\<lambda>element.
     io_bind (deref E element) (\<lambda>element.
     set_property E element ''value'' text_to_enter))"

definition custom_fill_element :: "env \<Rightarrow> page \<Rightarrow> string \<Rightarrow> string \<Rightarrow> unit io" where
  "custom_fill_element E pg selector text_to_enter =
     page_evaluate E pg FillScript [selector, text_to_enter] (fill_script E selector text_to_enter)"

definition msg_text_set :: "string \<Rightarrow> string \<Rightarrow> string" where
  \<open>msg_text_set text_to_enter selector =
     ''Success. Text "'' @ text_to_enter @ ''" set successfully in the element with selector '' @ selector\<close>

definition msg_selector_not_found :: "string \<Rightarrow> string" where
  "msg_selector_not_found selector = ''Error: Selector '' @ selector @ '' not found. Unable to continue.''"

definition msg_error_entering :: "string \<Rightarrow> exn \<Rightarrow> string" where
  "msg_error_entering selector e =
     ''Error entering text in selector '' @ selector @ ''. Error: '' @ str_exn e"

definition do_entertext :: "env \<Rightarrow> page \<Rightarrow> string \<Rightarrow> string \<Rightarrow> bool \<Rightarrow> string io" where
  "do_entertext E pg selector text_to_enter use_keyboard_fill =
     io_try
       (io_bind (query_selector_pw E pg selector) (\<lambda>elem.
        case elem of
          None \<Rightarrow> io_return (msg_selector_not_found selector)
        | Some elem \<Rightarrow>
            io_bind (if use_keyboard_fill then
                       io_bind (focus E elem) (\<lambda>_.
                       keyboard_type E pg text_to_enter (Some 2))
                     else custom_fill_element E pg selector text_to_enter) (\<lambda>_.
            io_bind (focus E elem) (\<lambda>_.
            io_bind (keyboard_type E pg '' '' None) (\<lambda>_.
            io_bind (asyncio_sleep 1) (\<lambda>_.
            io_return (msg_text_set text_to_enter selector)))))))
       (\<lambda>e. io_return (msg_error_entering selector e))"

text \<open>The default of the parameter \<open>use_keyboard_fill\<close> of \<open>do_entertext\<close>.\<close>

definition use_keyboard_fill_default :: bool where
  "use_keyboard_fill_default = False"

definition entertext :: "env \<Rightarrow> EnterTextEntry \<Rightarrow> string io" where
  "entertext E entry =
     io_bind (EnterTextEntry_getitem entry ''query_selector'') (\<lambda>query_selector.
     io_bind (EnterTextEntry_getitem entry ''text'') (\<lambda>text_to_enter.
     io_bind (get_current_page E) (\<lambda>pg.
     case pg of
       None \<Rightarrow> io_return ''Error: No active page found. OpenURL command opens a new page.''
     | Some pg \<Rightarrow>
         io_bind (highlight_element query_selector True) (\<lambda>_.
         io_bind (do_entertext E pg query_selector text_to_enter use_keyboard_fill_default) (\<lambda>result.
         io_bind (notify_user result) (\<lambda>_.
         io_return result))))))"




subsection \<open>A fixture page\<close>

text \<open>
  A page with a button \<open>#btn\<close> (element 1), an option \<open>#opt\<close> (element 2) with value
  \<open>blue\<close> inside a select (element 3), a link \<open>#link\<close> (element 4) and an input
  \<open>#name\<close> (element 5). Nothing else matches, no operation fails, and waiting for a
  selector that matches nothing times out.
\<close>

definition demo_elements :: "string \<Rightarrow> handle option" where
  "demo_elements selector =
     (if selector = ''#btn'' then Some 1
      else if selector = ''#opt'' then Some 2
      else if selector = ''#link'' then Some 4
      else if selector = ''#name'' then Some 5
      else None)"

definition demo_tag :: "handle \<Rightarrow> string" where
  "demo_tag h =
     (if h = 1 then ''BUTTON'' else if h = 2 then ''OPTION'' else if h = 3 then ''SELECT''
      else if h = 4 then ''A'' else ''INPUT'')"

definition demo_page :: env where
  "demo_page = \<lparr>
     current_page = (\<lambda>t. Some 1),
     ret_unit = (\<lambda>t c. None),
     ret_str = (\<lambda>t c. case c of
         ElementEvaluate h js \<Rightarrow> Inr (toLowerCase (demo_tag h))
       | _ \<Rightarrow> Inr []),
     ret_str_opt = (\<lambda>t c. case c of
         GetAttribute h name \<Rightarrow> Inr (if h = 2 \<and> name = ''value'' then Some ''blue'' else None)
       | _ \<Rightarrow> Inr None),
     ret_handle = (\<lambda>t c. Inr 3),
     ret_handle_opt = (\<lambda>t c. case c of
         WaitForSelector pg selector state timeout \<Rightarrow>
           (case demo_elements selector of
              None \<Rightarrow> Inl (TimeoutError ''Timeout 2000ms exceeded.'')
            | Some h \<Rightarrow> Inr (Some h))
       | QuerySelector pg selector \<Rightarrow> Inr (demo_elements selector)
       | DocQuerySelector selector \<Rightarrow> Inr (demo_elements selector)
       | _ \<Rightarrow> Inr None),
     dom_prop = (\<lambda>t h name.
         if name = ''tagName'' then demo_tag h
         else if h = 2 \<and> name = ''value'' then ''blue''
         else if h = 2 \<and> name = ''text'' then ''Blue''
         else []),
     dom_parent = (\<lambda>t h. if h = 2 then Some 3 else None),
     null_deref = (\<lambda>t. PlaywrightError ''TypeError: Cannot set properties of null'') \<rparr>"

text \<open>The same browser with no page open.\<close>

definition no_page :: env where
  "no_page = demo_page \<lparr> current_page := (\<lambda>t. None) \<rparr>"

text \<open>The same page, on which every evaluation of a script fails.\<close>

definition broken_evaluate :: env where
  "broken_evaluate = demo_page \<lparr> ret_unit := (\<lambda>t c. case c of
       PageEvaluate pg s args \<Rightarrow> Some (PlaywrightError ''Execution context was destroyed'')
     | _ \<Rightarrow> None) \<rparr>"

text \<open>
  The same page, whose elements are found by the host but no longer by the scripts
  that run inside it.
\<close>

definition stale_page :: env where
  "stale_page = demo_page \<lparr> ret_handle_opt := (\<lambda>t c. case c of
       DocQuerySelector selector \<Rightarrow> Inr None
     | _ \<Rightarrow> ret_handle_opt demo_page t c) \<rparr>"

text \<open>
  The same page, where scrolling an element into view and waiting for it to become
  visible both time out.
\<close>

definition hidden_page :: env where
  "hidden_page = demo_page \<lparr> ret_unit := (\<lambda>t c. case c of
       ScrollIntoViewIfNeeded h timeout \<Rightarrow> Some (TimeoutError ''Timeout 200ms exceeded.'')
     | WaitForElementState h state timeout \<Rightarrow> Some (TimeoutError ''Timeout 200ms exceeded.'')
     | _ \<Rightarrow> None) \<rparr>"


subsection \<open>Vocabulary of the properties\<close>

text \<open>The log when \<open>do_click\<close> reaches its \<open>try\<close> block: the optional wait is over.\<close>

definition after_wait :: "real \<Rightarrow> call list \<Rightarrow> call list" where
  "after_wait w t = (if 0 < w then t @ [Sleep w] else t)"

text \<open>The three waits of the click pipeline on an element that attaches.\<close>

definition click_waits :: "page \<Rightarrow> string \<Rightarrow> handle \<Rightarrow> call list" where
  "click_waits pg selector h =
     [WaitForSelector pg selector ''attached'' 2000,
      ScrollIntoViewIfNeeded h 200,
      WaitForElementState h ''visible'' 200]"

text \<open>A click event: the page's own \<open>click()\<close>, or the evaluation of the click script.\<close>

fun is_raw_click :: "call \<Rightarrow> bool" where
  "is_raw_click (DomClick h) = True"
| "is_raw_click (PageEvaluate pg ClickScript args) = True"
| "is_raw_click c = False"

fun is_keystroke :: "call \<Rightarrow> bool" where
  "is_keystroke (KeyboardType pg txt delay) = True"
| "is_keystroke c = False"

text \<open>
  \<open>adds P m\<close>: whatever the history, \<open>m\<close> only appends calls to the log, and every
  call it appends satisfies \<open>P\<close>. \<open>starts c m\<close>: the first call \<open>m\<close> makes is \<open>c\<close>.
\<close>

definition adds :: "(call \<Rightarrow> bool) \<Rightarrow> 'a io \<Rightarrow> bool" where
  "adds P m = (\<forall>t. \<exists>new. snd (m t) = t @ new \<and> list_all P new)"

definition starts :: "call \<Rightarrow> 'a io \<Rightarrow> bool" where
  "starts c m = (\<forall>t. \<exists>rest. snd (m t) = t @ c # rest)"

section \<open>Properties\<close>

subsection \<open>Running a computation on a log\<close>

lemma io_return_app: "io_return x t = (Returned x, t)"
  by (simp add: io_return_def)

lemma io_raise_app: "io_raise e t = (Raised e, t)"
  by (simp add: io_raise_def)

lemma io_bind_app:
  "io_bind m f t = (case m t of (Returned x, t') \<Rightarrow> f x t' | (Raised e, t') \<Rightarrow> (Raised e, t'))"
  by (simp add: io_bind_def)

lemma io_try_bind:
  "io_try (io_bind m f) h t =
     (case m t of (Returned x, t') \<Rightarrow> io_try (f x) h t' | (Raised e, t') \<Rightarrow> h e t')"
  by (simp add: io_bind_def io_try_def split: prod.splits outcome.splits)

lemma io_try_return: "io_try (io_return x) h t = (Returned x, t)"
  by (simp add: io_try_def io_return_def)

lemma io_try_raise: "io_try (io_raise e) h t = h e t"
  by (simp add: io_try_def io_raise_def)

text \<open>A call whose failure is ignored always completes, and is logged.\<close>

lemma soft_call: "io_try (call_unit E c) (\<lambda>e. io_return ()) t = (Returned (), t @ [c])"
  by (simp add: io_try_def call_unit_def io_return_def split: option.splits)

text \<open>A \<open>try\<close> whose handler returns never raises.\<close>

lemma io_try_returns: "\<exists>r. fst (io_try m (\<lambda>e. io_return (g e)) t) = Returned r"
  by (cases "m t") (simp add: io_try_def io_return_def split: outcome.splits)

lemma call_unit_app:
  "call_unit E c t = (case ret_unit E t c of None \<Rightarrow> Returned () | Some e \<Rightarrow> Raised e, t @ [c])"
  by (simp add: call_unit_def)

lemma call_str_app: "call_str E c t = (of_sum (ret_str E t c), t @ [c])"
  by (simp add: call_str_def)

lemma call_str_opt_app: "call_str_opt E c t = (of_sum (ret_str_opt E t c), t @ [c])"
  by (simp add: call_str_opt_def)

lemma call_handle_app: "call_handle E c t = (of_sum (ret_handle E t c), t @ [c])"
  by (simp add: call_handle_def)

lemma call_handle_opt_app: "call_handle_opt E c t = (of_sum (ret_handle_opt E t c), t @ [c])"
  by (simp add: call_handle_opt_def)

lemma call_total_app: "call_total c t = (Returned (), t @ [c])"
  by (simp add: call_total_def)

lemma of_sum_simps: "of_sum (Inl e) = Raised e" "of_sum (Inr x) = Returned x"
  by (simp_all add: of_sum_def)

lemmas run = io_return_app io_raise_app io_bind_app io_try_bind io_try_return io_try_raise
  soft_call call_unit_app call_str_app call_str_opt_app call_handle_app call_handle_opt_app
  call_total_app of_sum_simps wait_for_selector_def query_selector_pw_def
  scroll_into_view_if_needed_def wait_for_element_state_def element_evaluate_def
  get_attribute_def evaluate_handle_def select_option_def focus_def keyboard_type_def
  highlight_element_def notify_user_def asyncio_sleep_def

subsection \<open>What a computation appends to the log\<close>

lemma addsD: "adds P m \<Longrightarrow> \<exists>new. snd (m t) = t @ new \<and> list_all P new"
  by (simp add: adds_def)

lemma startsD: "starts c m \<Longrightarrow> \<exists>rest. snd (m t) = t @ c # rest"
  by (simp add: starts_def)

lemma adds_return: "adds P (io_return x)"
  by (simp add: adds_def io_return_def)

lemma adds_raise: "adds P (io_raise e)"
  by (simp add: adds_def io_raise_def)

lemma adds_bind:
  assumes "adds P m" and "\<And>x. adds P (f x)"
  shows "adds P (io_bind m f)"
  unfolding adds_def
proof
  fix t
  obtain n1 where n1: "snd (m t) = t @ n1" "list_all P n1"
    using assms(1) addsD by blast
  show "\<exists>new. snd (io_bind m f t) = t @ new \<and> list_all P new"
  proof (cases "m t")
    case (Pair r t')
    with n1 have t': "t' = t @ n1" by simp
    show ?thesis
    proof (cases r)
      case (Raised e)
      with Pair t' n1 show ?thesis by (simp add: io_bind_def)
    next
      case (Returned x)
      obtain n2 where n2: "snd (f x t') = t' @ n2" "list_all P n2"
        using assms(2) addsD by blast
      with Pair Returned t' n1 show ?thesis by (simp add: io_bind_def)
    qed
  qed
qed

lemma adds_try:
  assumes "adds P m" and "\<And>e. adds P (h e)"
  shows "adds P (io_try m h)"
  unfolding adds_def
proof
  fix t
  obtain n1 where n1: "snd (m t) = t @ n1" "list_all P n1"
    using assms(1) addsD by blast
  show "\<exists>new. snd (io_try m h t) = t @ new \<and> list_all P new"
  proof (cases "m t")
    case (Pair r t')
    with n1 have t': "t' = t @ n1" by simp
    show ?thesis
    proof (cases r)
      case (Returned x)
      with Pair t' n1 show ?thesis by (simp add: io_try_def)
    next
      case (Raised e)
      obtain n2 where n2: "snd (h e t') = t' @ n2" "list_all P n2"
        using assms(2) addsD by blast
      with Pair Raised t' n1 show ?thesis by (simp add: io_try_def)
    qed
  qed
qed

lemma adds_call_unit: "P c \<Longrightarrow> adds P (call_unit E c)"
  by (simp add: adds_def call_unit_def)

lemma adds_call_str: "P c \<Longrightarrow> adds P (call_str E c)"
  by (simp add: adds_def call_str_def)

lemma adds_call_str_opt: "P c \<Longrightarrow> adds P (call_str_opt E c)"
  by (simp add: adds_def call_str_opt_def)

lemma adds_call_handle: "P c \<Longrightarrow> adds P (call_handle E c)"
  by (simp add: adds_def call_handle_def)

lemma adds_call_handle_opt: "P c \<Longrightarrow> adds P (call_handle_opt E c)"
  by (simp add: adds_def call_handle_opt_def)

lemma adds_call_total: "P c \<Longrightarrow> adds P (call_total c)"
  by (simp add: adds_def call_total_def)

lemma adds_get_property: "adds P (get_property E h n)"
  by (simp add: adds_def get_property_def)

lemma adds_parentElement: "adds P (parentElement E h)"
  by (simp add: adds_def parentElement_def)

lemma adds_deref: "adds P (deref E x)"
  by (cases x) (simp_all add: adds_def deref_def io_return_def)

lemma adds_if: "adds P a \<Longrightarrow> adds P b \<Longrightarrow> adds P (if c then a else b)"
  by simp

lemma adds_case_option:
  "adds P a \<Longrightarrow> (\<And>x. adds P (b x)) \<Longrightarrow> adds P (case v of None \<Rightarrow> a | Some x \<Rightarrow> b x)"
  by (cases v) simp_all

lemmas adds_intros = adds_return adds_raise adds_bind adds_try adds_call_unit adds_call_str
  adds_call_str_opt adds_call_handle adds_call_handle_opt adds_call_total adds_get_property
  adds_parentElement adds_deref adds_if adds_case_option

lemma starts_call_unit: "starts c (call_unit E c)"
  by (simp add: starts_def call_unit_def)

lemma starts_call_handle_opt: "starts c (call_handle_opt E c)"
  by (simp add: starts_def call_handle_opt_def)

lemma starts_bind:
  assumes "starts c m" and "\<And>x. adds (\<lambda>c. True) (f x)"
  shows "starts c (io_bind m f)"
  unfolding starts_def
proof
  fix t
  obtain n1 where n1: "snd (m t) = t @ c # n1"
    using assms(1) startsD by blast
  show "\<exists>rest. snd (io_bind m f t) = t @ c # rest"
  proof (cases "m t")
    case (Pair r t')
    with n1 have t': "t' = t @ c # n1" by simp
    show ?thesis
    proof (cases r)
      case (Raised e)
      with Pair t' show ?thesis by (simp add: io_bind_def)
    next
      case (Returned x)
      obtain n2 where n2: "snd (f x t') = t' @ n2"
        using assms(2) addsD by blast
      with Pair Returned t' show ?thesis by (simp add: io_bind_def)
    qed
  qed
qed

lemma starts_try:
  assumes "starts c m" and "\<And>e. adds (\<lambda>c. True) (h e)"
  shows "starts c (io_try m h)"
  unfolding starts_def
proof
  fix t
  obtain n1 where n1: "snd (m t) = t @ c # n1"
    using assms(1) startsD by blast
  show "\<exists>rest. snd (io_try m h t) = t @ c # rest"
  proof (cases "m t")
    case (Pair r t')
    with n1 have t': "t' = t @ c # n1" by simp
    show ?thesis
    proof (cases r)
      case (Returned x)
      with Pair t' show ?thesis by (simp add: io_try_def)
    next
      case (Raised e)
      obtain n2 where n2: "snd (h e t') = t' @ n2"
        using assms(2) addsD by blast
      with Pair Raised t' show ?thesis by (simp add: io_try_def)
    qed
  qed
qed

subsection \<open>The facades and their pipelines\<close>

lemma do_click_after_wait:
  "do_click E pg selector w t = do_click E pg selector 0 (after_wait w t)"
  by (simp add: do_click_def after_wait_def run)

lemma click_page:
  assumes "current_page E t = Some pg"
  shows "fst (click E selector w t) =
         fst (do_click E pg selector w (t @ [GetCurrentPage, HighlightElement selector True]))"
  using assms
  by (simp add: click_def get_current_page_def run split: prod.splits outcome.splits)

lemma click_no_page:
  assumes "current_page E t = None"
  shows "click E selector w t =
    (Raised (ValueError ''No active page found. OpenURL command opens a new page.''),
     t @ [GetCurrentPage])"
  using assms by (simp add: click_def get_current_page_def run)

lemma entertext_page:
  assumes "current_page E t = Some pg"
  shows "fst (entertext E entry t) =
         fst (do_entertext E pg (query_selector entry) (entry_text entry) False
                (t @ [GetCurrentPage, HighlightElement (query_selector entry) True]))"
  using assms
  by (simp add: entertext_def EnterTextEntry_getitem_def use_keyboard_fill_default_def
      get_current_page_def run split: prod.splits outcome.splits)

lemma entertext_no_page:
  assumes "current_page E t = None"
  shows "entertext E entry t =
    (Returned ''Error: No active page found. OpenURL command opens a new page.'',
     t @ [GetCurrentPage])"
  using assms by (simp add: entertext_def EnterTextEntry_getitem_def get_current_page_def run)

lemma do_click_returns0: "\<exists>s. fst (do_click E pg selector 0 t) = Returned s"
  unfolding do_click_def
  by (simp add: io_bind_app io_return_app io_try_returns)

lemma do_click_returns: "\<exists>s. fst (do_click E pg selector w t) = Returned s"
  by (subst do_click_after_wait) (rule do_click_returns0)

lemma do_entertext_returns: "\<exists>s. fst (do_entertext E pg selector txt ukf t) = Returned s"
  unfolding do_entertext_def by (rule io_try_returns)

lemma entertext_returns: "\<exists>s. fst (entertext E entry t) = Returned s"
proof (cases "current_page E t")
  case None
  then show ?thesis by (simp add: entertext_no_page)
next
  case (Some pg)
  then show ?thesis by (simp add: entertext_page do_entertext_returns)
qed

lemma perform_javascript_click_returns:
  "\<exists>r. fst (perform_javascript_click E pg selector t) = Returned r"
  unfolding perform_javascript_click_def by (rule io_try_returns)

text \<open>
  The generic branch: once the element is attached, is not an option and has taken the
  focus, \<open>do_click\<close> answers that the element was clicked, whatever the click script does.
\<close>

lemma do_click_generic:
  assumes "ret_handle_opt E t (WaitForSelector pg selector ''attached'' 2000) = Inr (Some h)"
    and "ret_str E (t @ click_waits pg selector h) (ElementEvaluate h ''element => element.tagName.toLowerCase()'') = Inr tag"
    and "tag \<noteq> ''option''"
    and "ret_unit E (t @ click_waits pg selector h @ [ElementEvaluate h ''element => element.tagName.toLowerCase()'']) (Focus h) = None"
  shows "do_click E pg selector 0 t =
     (Returned (msg_clicked selector),
      snd (perform_javascript_click E pg selector
             (t @ click_waits pg selector h @ [ElementEvaluate h ''element => element.tagName.toLowerCase()'', Focus h])))"
proof -
  let ?t = "t @ click_waits pg selector h @ [ElementEvaluate h ''element => element.tagName.toLowerCase()'', Focus h]"
  obtain r t' where r: "perform_javascript_click E pg selector ?t = (Returned r, t')"
    using perform_javascript_click_returns [of E pg selector ?t]
    by (cases "perform_javascript_click E pg selector ?t") auto
  have "do_click E pg selector 0 t = (Returned (msg_clicked selector), t')"
    using assms r by (simp add: do_click_def click_waits_def run)
  then show ?thesis using r by simp
qed

lemma do_click_option_no_raw_click:
  assumes "ret_handle_opt E t (WaitForSelector pg selector ''attached'' 2000) = Inr (Some h)"
    and "ret_str E (t @ click_waits pg selector h) (ElementEvaluate h ''element => element.tagName.toLowerCase()'') = Inr ''option''"
  shows "\<exists>new. snd (do_click E pg selector 0 t) = t @ new \<and> filter is_raw_click new = []"
  using assms
  by (simp add: do_click_def click_waits_def run of_sum_def split: sum.splits option.splits)

lemma do_click_option:
  assumes "ret_handle_opt E t (WaitForSelector pg selector ''attached'' 2000) = Inr (Some h)"
    and "ret_str E (t @ click_waits pg selector h) (ElementEvaluate h ''element => element.tagName.toLowerCase()'') = Inr ''option''"
    and "ret_str_opt E (t @ click_waits pg selector h @ [ElementEvaluate h ''element => element.tagName.toLowerCase()''])
           (GetAttribute h ''value'') = Inr v"
    and "ret_handle E (t @ click_waits pg selector h @ [ElementEvaluate h ''element => element.tagName.toLowerCase()'', GetAttribute h ''value''])
           (EvaluateHandle h ''element => element.parentNode'') = Inr parent"
    and "ret_unit E (t @ click_waits pg selector h @ [ElementEvaluate h ''element => element.tagName.toLowerCase()'', GetAttribute h ''value'',
             EvaluateHandle h ''element => element.parentNode''])
           (SelectOption parent v) = None"
  shows "do_click E pg selector 0 t =
     (Returned (msg_option_selected v),
      t @ click_waits pg selector h @ [ElementEvaluate h ''element => element.tagName.toLowerCase()'', GetAttribute h ''value'',
        EvaluateHandle h ''element => element.parentNode'', SelectOption parent v])"
  using assms by (simp add: do_click_def click_waits_def run)

lemma do_click_unattached:
  assumes "\<forall>h. ret_handle_opt E t (WaitForSelector pg selector ''attached'' 2000) \<noteq> Inr (Some h)"
  shows "fst (do_click E pg selector 0 t) = Returned (msg_unable_to_click selector)"
proof (cases "ret_handle_opt E t (WaitForSelector pg selector ''attached'' 2000)")
  case (Inl e)
  then show ?thesis by (simp add: do_click_def run)
next
  case (Inr r)
  with assms have "r = None" by (cases r) auto
  with Inr show ?thesis by (simp add: do_click_def run)
qed

lemma do_entertext_unattached:
  assumes "\<forall>h. ret_handle_opt E t (QuerySelector pg selector) \<noteq> Inr (Some h)"
  shows "fst (do_entertext E pg selector txt ukf t) = Returned (msg_selector_not_found selector)
       \<or> (\<exists>e. fst (do_entertext E pg selector txt ukf t) = Returned (msg_error_entering selector e))"
proof (cases "ret_handle_opt E t (QuerySelector pg selector)")
  case (Inl e)
  then have "fst (do_entertext E pg selector txt ukf t) = Returned (msg_error_entering selector e)"
    by (simp add: do_entertext_def run)
  then show ?thesis by blast
next
  case (Inr r)
  with assms have "r = None" by (cases r) auto
  with Inr show ?thesis by (simp add: do_entertext_def run)
qed

lemma adds_js_code: "adds (\<lambda>c. True) (js_code E selector)"
  unfolding js_code_def document_querySelector_def set_property_def dispatchEvent_def
    element_click_def
  by (intro adds_intros) simp_all

lemma starts_js_code: "starts (DocQuerySelector selector) (js_code E selector)"
  unfolding js_code_def document_querySelector_def set_property_def dispatchEvent_def
    element_click_def
  by (intro starts_bind starts_call_handle_opt adds_intros) simp_all

lemma starts_perform_javascript_click:
  "starts (PageEvaluate pg ClickScript [selector]) (perform_javascript_click E pg selector)"
  unfolding perform_javascript_click_def page_evaluate_def
  by (intro starts_try starts_bind starts_call_unit adds_js_code adds_intros)

lemma demo_tag_lower:
  "toLowerCase (demo_tag (Suc 0)) = ''button''"
  "toLowerCase (demo_tag 2) = ''option''"
  "toLowerCase (demo_tag 4) = ''a''"
  "toLowerCase (demo_tag 5) = ''input''"
  by code_simp+

subsection \<open>Claims about click\<close>

text \<open>
  C1. With a page open, take a selector for which no wait for attachment and no query
  ever yields an element, whatever the history (the wait times out, fails, or finds
  nothing). Then \<open>click\<close> returns the message that the element could not be clicked,
  and \<open>entertext\<close> returns either the message that the selector was not found or the
  message that carries the error; neither raises.
\<close>

theorem click_entertext_unattached_return_failure:
  assumes "current_page E t = Some pg"
    and "\<forall>t' h. ret_handle_opt E t' (WaitForSelector pg selector ''attached'' 2000) \<noteq> Inr (Some h)"
    and "\<forall>t' h. ret_handle_opt E t' (QuerySelector pg selector) \<noteq> Inr (Some h)"
    and "query_selector entry = selector"
  shows "fst (click E selector w t) = Returned (msg_unable_to_click selector) \<and>
         (fst (entertext E entry t) = Returned (msg_selector_not_found selector) \<or>
          (\<exists>e. fst (entertext E entry t) = Returned (msg_error_entering selector e)))"
proof -
  have "fst (click E selector w t) = Returned (msg_unable_to_click selector)"
    unfolding click_page [OF assms(1)] do_click_after_wait [of E pg selector w]
    by (rule do_click_unattached) (simp add: assms(2))
  moreover have "fst (entertext E entry t) = Returned (msg_selector_not_found selector) \<or>
          (\<exists>e. fst (entertext E entry t) = Returned (msg_error_entering selector e))"
    unfolding entertext_page [OF assms(1)] assms(4)
    by (rule do_entertext_unattached) (simp add: assms(3))
  ultimately show ?thesis by simp
qed

theorem click_entertext_unattached_return_failure_witness:
  "current_page demo_page [] = Some 1 \<and>
   (\<forall>t' h. ret_handle_opt demo_page t' (WaitForSelector 1 ''#missing'' ''attached'' 2000) \<noteq> Inr (Some h)) \<and>
   (\<forall>t' h. ret_handle_opt demo_page t' (QuerySelector 1 ''#missing'') \<noteq> Inr (Some h)) \<and>
   fst (click demo_page ''#missing'' 0 []) = Returned (msg_unable_to_click ''#missing'') \<and>
   (fst (entertext demo_page \<lparr>query_selector = ''#missing'', entry_text = ''alice''\<rparr> [])
      = Returned (msg_selector_not_found ''#missing'') \<or>
    (\<exists>e. fst (entertext demo_page \<lparr>query_selector = ''#missing'', entry_text = ''alice''\<rparr> [])
      = Returned (msg_error_entering ''#missing'' e)))"
proof -
  have h1: "current_page demo_page [] = Some 1"
    by (simp add: demo_page_def)
  have h2: "\<forall>t' h. ret_handle_opt demo_page t' (WaitForSelector 1 ''#missing'' ''attached'' 2000) \<noteq> Inr (Some h)"
    by (simp add: demo_page_def demo_elements_def)
  have h3: "\<forall>t' h. ret_handle_opt demo_page t' (QuerySelector 1 ''#missing'') \<noteq> Inr (Some h)"
    by (simp add: demo_page_def demo_elements_def)
  have h4: "query_selector \<lparr>query_selector = ''#missing'', entry_text = ''alice''\<rparr> = ''#missing''"
    by simp
  from click_entertext_unattached_return_failure [OF h1 h2 h3 h4, of 0] h1 h2 h3
  show ?thesis by simp
qed

text \<open>
  C2. On the fixture page whose script evaluations fail, clicking the attached button
  \<open>#btn\<close> makes \<open>page.evaluate\<close> raise. \<open>perform_javascript_click\<close> swallows the
  exception, nothing is clicked, and \<open>click\<close> returns, and notifies, the message of a
  successful click, which is not the failure message.
\<close>

theorem click_script_failure_reported_as_success:
  "ret_unit broken_evaluate
     [GetCurrentPage, HighlightElement ''#btn'' True,
      WaitForSelector 1 ''#btn'' ''attached'' 2000, ScrollIntoViewIfNeeded 1 200,
      WaitForElementState 1 ''visible'' 200, ElementEvaluate 1 ''element => element.tagName.toLowerCase()'', Focus 1]
     (PageEvaluate 1 ClickScript [''#btn''])
     = Some (PlaywrightError ''Execution context was destroyed'') \<and>
   click broken_evaluate ''#btn'' 0 [] =
     (Returned (msg_clicked ''#btn''),
      [GetCurrentPage, HighlightElement ''#btn'' True,
       WaitForSelector 1 ''#btn'' ''attached'' 2000, ScrollIntoViewIfNeeded 1 200,
       WaitForElementState 1 ''visible'' 200, ElementEvaluate 1 ''element => element.tagName.toLowerCase()'', Focus 1,
       PageEvaluate 1 ClickScript [''#btn''], NotifyUser (msg_clicked ''#btn'')]) \<and>
   msg_clicked ''#btn'' \<noteq> msg_unable_to_click ''#btn''"
proof -
  have "click broken_evaluate ''#btn'' 0 [] =
     (Returned (msg_clicked ''#btn''),
      [GetCurrentPage, HighlightElement ''#btn'' True,
       WaitForSelector 1 ''#btn'' ''attached'' 2000, ScrollIntoViewIfNeeded 1 200,
       WaitForElementState 1 ''visible'' 200, ElementEvaluate 1 ''element => element.tagName.toLowerCase()'', Focus 1,
       PageEvaluate 1 ClickScript [''#btn''], NotifyUser (msg_clicked ''#btn'')])"
    by (simp add: click_def do_click_def perform_javascript_click_def page_evaluate_def
        get_current_page_def run broken_evaluate_def demo_page_def demo_elements_def
        demo_tag_def toLowerCase_def lower_char_def)
  moreover have "msg_clicked ''#btn'' \<noteq> msg_unable_to_click ''#btn''"
    by (simp add: msg_clicked_def msg_unable_to_click_def)
  ultimately show ?thesis
    by (simp add: broken_evaluate_def)
qed

text \<open>
  C5. Take a click whose element attaches and whose tag name is read as \<open>option\<close>.
  Whatever happens next, the pipeline makes no click: it neither calls the page's
  \<open>click()\<close> nor evaluates the click script. When reading the \<open>value\<close> attribute,
  fetching the parent and selecting the option complete, the calls after the tag
  check are exactly these three, the option is selected on the parent with the value
  read, and the result is \<open>Select menu option "<value>" selected\<close>.
\<close>

theorem click_option_selects_through_parent:
  assumes "ret_handle_opt E (after_wait w t) (WaitForSelector pg selector ''attached'' 2000) = Inr (Some h)"
    and "ret_str E (after_wait w t @ click_waits pg selector h) (ElementEvaluate h ''element => element.tagName.toLowerCase()'') = Inr ''option''"
  shows "(\<exists>new. snd (do_click E pg selector w t) = after_wait w t @ new \<and> filter is_raw_click new = []) \<and>
    (ret_str_opt E (after_wait w t @ click_waits pg selector h @ [ElementEvaluate h ''element => element.tagName.toLowerCase()''])
         (GetAttribute h ''value'') = Inr v \<longrightarrow>
     ret_handle E (after_wait w t @ click_waits pg selector h @ [ElementEvaluate h ''element => element.tagName.toLowerCase()'', GetAttribute h ''value''])
         (EvaluateHandle h ''element => element.parentNode'') = Inr parent \<longrightarrow>
     ret_unit E (after_wait w t @ click_waits pg selector h @ [ElementEvaluate h ''element => element.tagName.toLowerCase()'', GetAttribute h ''value'',
           EvaluateHandle h ''element => element.parentNode''])
         (SelectOption parent v) = None \<longrightarrow>
     do_click E pg selector w t =
       (Returned (msg_option_selected v),
        after_wait w t @ click_waits pg selector h @ [ElementEvaluate h ''element => element.tagName.toLowerCase()'', GetAttribute h ''value'',
          EvaluateHandle h ''element => element.parentNode'', SelectOption parent v]))"
  unfolding do_click_after_wait [of E pg selector w]
  using do_click_option_no_raw_click [OF assms] do_click_option [OF assms]
  by blast

theorem click_option_selects_through_parent_witness:
  "ret_str demo_page (after_wait 0 [] @ click_waits 1 ''#opt'' 2) (ElementEvaluate 2 ''element => element.tagName.toLowerCase()'') = Inr ''option'' \<and>
   do_click demo_page 1 ''#opt'' 0 [] =
     (Returned (msg_option_selected (Some ''blue'')),
      [WaitForSelector 1 ''#opt'' ''attached'' 2000, ScrollIntoViewIfNeeded 2 200,
       WaitForElementState 2 ''visible'' 200, ElementEvaluate 2 ''element => element.tagName.toLowerCase()'',
       GetAttribute 2 ''value'', EvaluateHandle 2 ''element => element.parentNode'', SelectOption 3 (Some ''blue'')]) \<and>
   msg_option_selected (Some ''blue'') = ''Select menu option '' @ [CHR 0x22] @ ''blue'' @ [CHR 0x22] @ '' selected''"
proof -
  have h1: "ret_handle_opt demo_page (after_wait 0 []) (WaitForSelector 1 ''#opt'' ''attached'' 2000) = Inr (Some 2)"
    by (simp add: demo_page_def demo_elements_def)
  have h2: "ret_str demo_page (after_wait 0 [] @ click_waits 1 ''#opt'' 2) (ElementEvaluate 2 ''element => element.tagName.toLowerCase()'') = Inr ''option''"
    by (simp add: demo_page_def demo_tag_lower)
  have h3: "ret_str_opt demo_page (after_wait 0 [] @ click_waits 1 ''#opt'' 2 @ [ElementEvaluate 2 ''element => element.tagName.toLowerCase()''])
         (GetAttribute 2 ''value'') = Inr (Some ''blue'')"
    by (simp add: demo_page_def)
  have h4: "ret_handle demo_page (after_wait 0 [] @ click_waits 1 ''#opt'' 2 @ [ElementEvaluate 2 ''element => element.tagName.toLowerCase()'', GetAttribute 2 ''value''])
         (EvaluateHandle 2 ''element => element.parentNode'') = Inr 3"
    by (simp add: demo_page_def)
  have h5: "ret_unit demo_page (after_wait 0 [] @ click_waits 1 ''#opt'' 2 @ [ElementEvaluate 2 ''element => element.tagName.toLowerCase()'', GetAttribute 2 ''value'',
           EvaluateHandle 2 ''element => element.parentNode'']) (SelectOption 3 (Some ''blue'')) = None"
    by (simp add: demo_page_def)
  from click_option_selects_through_parent [OF h1 h2, of "Some ''blue''" 3] h3 h4 h5
  have "do_click demo_page 1 ''#opt'' 0 [] =
       (Returned (msg_option_selected (Some ''blue'')),
        after_wait 0 [] @ click_waits 1 ''#opt'' 2 @ [ElementEvaluate 2 ''element => element.tagName.toLowerCase()'', GetAttribute 2 ''value'',
          EvaluateHandle 2 ''element => element.parentNode'', SelectOption 3 (Some ''blue'')])"
    by blast
  then show ?thesis using h2
    by (simp add: after_wait_def click_waits_def msg_option_selected_def fmt_def)
qed

text \<open>
  C9. After the element is attached the pipeline scrolls it into view and waits for it
  to be visible, each with a bound of 200 ms (\<open>click_waits\<close>). Neither answer matters:
  with no assumption on the two waits, a click on an element that is not an option and
  takes the focus goes on to the click script, at a history that holds both waits, and
  returns the message of a successful click.
\<close>

theorem click_soft_waits_absorbed:
  assumes "ret_handle_opt E (after_wait w t) (WaitForSelector pg selector ''attached'' 2000) = Inr (Some h)"
    and "ret_str E (after_wait w t @ click_waits pg selector h) (ElementEvaluate h ''element => element.tagName.toLowerCase()'') = Inr tag"
    and "tag \<noteq> ''option''"
    and "ret_unit E (after_wait w t @ click_waits pg selector h @ [ElementEvaluate h ''element => element.tagName.toLowerCase()'']) (Focus h) = None"
  shows "do_click E pg selector w t =
     (Returned (msg_clicked selector),
      snd (perform_javascript_click E pg selector
             (after_wait w t @ click_waits pg selector h @ [ElementEvaluate h ''element => element.tagName.toLowerCase()'', Focus h]))) \<and>
    (\<exists>rest. snd (do_click E pg selector w t) =
       after_wait w t @ click_waits pg selector h @
       [ElementEvaluate h ''element => element.tagName.toLowerCase()'', Focus h, PageEvaluate pg ClickScript [selector]] @ rest)"
proof -
  let ?t = "after_wait w t @ click_waits pg selector h @ [ElementEvaluate h ''element => element.tagName.toLowerCase()'', Focus h]"
  have run1: "do_click E pg selector w t =
     (Returned (msg_clicked selector), snd (perform_javascript_click E pg selector ?t))"
    unfolding do_click_after_wait [of E pg selector w]
    using assms by (rule do_click_generic)
  obtain rest where "snd (perform_javascript_click E pg selector ?t) =
      ?t @ PageEvaluate pg ClickScript [selector] # rest"
    using startsD [OF starts_perform_javascript_click] by blast
  with run1 show ?thesis by simp
qed

theorem click_soft_waits_absorbed_witness:
  "ret_unit hidden_page [WaitForSelector 1 ''#btn'' ''attached'' 2000] (ScrollIntoViewIfNeeded 1 200)
     = Some (TimeoutError ''Timeout 200ms exceeded.'') \<and>
   ret_unit hidden_page [WaitForSelector 1 ''#btn'' ''attached'' 2000, ScrollIntoViewIfNeeded 1 200]
     (WaitForElementState 1 ''visible'' 200) = Some (TimeoutError ''Timeout 200ms exceeded.'') \<and>
   do_click hidden_page 1 ''#btn'' 0 [] =
     (Returned (msg_clicked ''#btn''),
      [WaitForSelector 1 ''#btn'' ''attached'' 2000, ScrollIntoViewIfNeeded 1 200,
       WaitForElementState 1 ''visible'' 200, ElementEvaluate 1 ''element => element.tagName.toLowerCase()'', Focus 1,
       PageEvaluate 1 ClickScript [''#btn''], DocQuerySelector ''#btn'', DomClick 1])"
proof -
  have h1: "ret_handle_opt hidden_page (after_wait 0 []) (WaitForSelector 1 ''#btn'' ''attached'' 2000) = Inr (Some 1)"
    by (simp add: hidden_page_def demo_page_def demo_elements_def)
  have h2: "ret_str hidden_page (after_wait 0 [] @ click_waits 1 ''#btn'' 1) (ElementEvaluate 1 ''element => element.tagName.toLowerCase()'') = Inr ''button''"
    by (simp add: hidden_page_def demo_page_def demo_tag_lower)
  have h3: "''button'' \<noteq> ''option''"
    by simp
  have h4: "ret_unit hidden_page (after_wait 0 [] @ click_waits 1 ''#btn'' 1 @ [ElementEvaluate 1 ''element => element.tagName.toLowerCase()'']) (Focus 1) = None"
    by (simp add: hidden_page_def)
  have "snd (perform_javascript_click hidden_page 1 ''#btn''
               (after_wait 0 [] @ click_waits 1 ''#btn'' 1 @ [ElementEvaluate 1 ''element => element.tagName.toLowerCase()'', Focus 1])) =
      [WaitForSelector 1 ''#btn'' ''attached'' 2000, ScrollIntoViewIfNeeded 1 200,
       WaitForElementState 1 ''visible'' 200, ElementEvaluate 1 ''element => element.tagName.toLowerCase()'', Focus 1,
       PageEvaluate 1 ClickScript [''#btn''], DocQuerySelector ''#btn'', DomClick 1]"
    by (simp add: perform_javascript_click_def page_evaluate_def js_code_def
        document_querySelector_def get_property_def element_click_def run after_wait_def
        click_waits_def hidden_page_def demo_page_def demo_elements_def demo_tag_lower)
  with click_soft_waits_absorbed [OF h1 h2 h3 h4]
  show ?thesis by (simp add: hidden_page_def)
qed

text \<open>
  C10. Take a generic click: the element attaches on the host side, is not an option,
  and takes the focus. If the click script starts and its own \<open>document.querySelector\<close>
  finds nothing, the script returns its not-found message and makes no further call,
  so nothing is clicked, and \<open>do_click\<close> still returns the message of a successful
  click.
\<close>

theorem click_reports_success_without_click:
  assumes "ret_handle_opt E (after_wait w t) (WaitForSelector pg selector ''attached'' 2000) = Inr (Some h)"
    and "ret_str E (after_wait w t @ click_waits pg selector h) (ElementEvaluate h ''element => element.tagName.toLowerCase()'') = Inr tag"
    and "tag \<noteq> ''option''"
    and "ret_unit E (after_wait w t @ click_waits pg selector h @ [ElementEvaluate h ''element => element.tagName.toLowerCase()'']) (Focus h) = None"
    and "ret_unit E (after_wait w t @ click_waits pg selector h @ [ElementEvaluate h ''element => element.tagName.toLowerCase()'', Focus h])
           (PageEvaluate pg ClickScript [selector]) = None"
    and "ret_handle_opt E (after_wait w t @ click_waits pg selector h @ [ElementEvaluate h ''element => element.tagName.toLowerCase()'', Focus h,
             PageEvaluate pg ClickScript [selector]])
           (DocQuerySelector selector) = Inr None"
  shows "perform_javascript_click E pg selector
           (after_wait w t @ click_waits pg selector h @ [ElementEvaluate h ''element => element.tagName.toLowerCase()'', Focus h]) =
         (Returned (Some (''perform_javascript_click: Element with selector '' @ selector @ '' not found'')),
          after_wait w t @ click_waits pg selector h @ [ElementEvaluate h ''element => element.tagName.toLowerCase()'', Focus h,
            PageEvaluate pg ClickScript [selector], DocQuerySelector selector]) \<and>
         do_click E pg selector w t =
         (Returned (msg_clicked selector),
          after_wait w t @ click_waits pg selector h @ [ElementEvaluate h ''element => element.tagName.toLowerCase()'', Focus h,
            PageEvaluate pg ClickScript [selector], DocQuerySelector selector])"
proof -
  have "perform_javascript_click E pg selector
           (after_wait w t @ click_waits pg selector h @ [ElementEvaluate h ''element => element.tagName.toLowerCase()'', Focus h]) =
         (Returned (Some (''perform_javascript_click: Element with selector '' @ selector @ '' not found'')),
          after_wait w t @ click_waits pg selector h @ [ElementEvaluate h ''element => element.tagName.toLowerCase()'', Focus h,
            PageEvaluate pg ClickScript [selector], DocQuerySelector selector])"
    using assms(5,6)
    by (simp add: perform_javascript_click_def page_evaluate_def js_code_def
        document_querySelector_def run)
  moreover from this have "do_click E pg selector w t =
         (Returned (msg_clicked selector),
          after_wait w t @ click_waits pg selector h @ [ElementEvaluate h ''element => element.tagName.toLowerCase()'', Focus h,
            PageEvaluate pg ClickScript [selector], DocQuerySelector selector])"
    unfolding do_click_after_wait [of E pg selector w]
    by (simp add: do_click_generic [OF assms(1-4)])
  ultimately show ?thesis by simp
qed

theorem click_reports_success_without_click_witness:
  "ret_handle_opt stale_page [] (WaitForSelector 1 ''#btn'' ''attached'' 2000) = Inr (Some 1) \<and>
   do_click stale_page 1 ''#btn'' 0 [] =
     (Returned (msg_clicked ''#btn''),
      [WaitForSelector 1 ''#btn'' ''attached'' 2000, ScrollIntoViewIfNeeded 1 200,
       WaitForElementState 1 ''visible'' 200, ElementEvaluate 1 ''element => element.tagName.toLowerCase()'', Focus 1,
       PageEvaluate 1 ClickScript [''#btn''], DocQuerySelector ''#btn'']) \<and>
   filter is_raw_click
     [WaitForSelector 1 ''#btn'' ''attached'' 2000, ScrollIntoViewIfNeeded 1 200,
      WaitForElementState 1 ''visible'' 200, ElementEvaluate 1 ''element => element.tagName.toLowerCase()'', Focus 1,
      PageEvaluate 1 ClickScript [''#btn''], DocQuerySelector ''#btn'']
     = [PageEvaluate 1 ClickScript [''#btn'']]"
proof -
  have h1: "ret_handle_opt stale_page (after_wait 0 []) (WaitForSelector 1 ''#btn'' ''attached'' 2000) = Inr (Some 1)"
    by (simp add: stale_page_def demo_page_def demo_elements_def after_wait_def)
  have h2: "ret_str stale_page (after_wait 0 [] @ click_waits 1 ''#btn'' 1) (ElementEvaluate 1 ''element => element.tagName.toLowerCase()'') = Inr ''button''"
    by (simp add: stale_page_def demo_page_def demo_tag_lower)
  have h3: "''button'' \<noteq> ''option''"
    by simp
  have h4: "ret_unit stale_page (after_wait 0 [] @ click_waits 1 ''#btn'' 1 @ [ElementEvaluate 1 ''element => element.tagName.toLowerCase()'']) (Focus 1) = None"
    by (simp add: stale_page_def demo_page_def)
  have h5: "ret_unit stale_page (after_wait 0 [] @ click_waits 1 ''#btn'' 1 @ [ElementEvaluate 1 ''element => element.tagName.toLowerCase()'', Focus 1])
           (PageEvaluate 1 ClickScript [''#btn'']) = None"
    by (simp add: stale_page_def demo_page_def)
  have h6: "ret_handle_opt stale_page (after_wait 0 [] @ click_waits 1 ''#btn'' 1 @ [ElementEvaluate 1 ''element => element.tagName.toLowerCase()'', Focus 1,
             PageEvaluate 1 ClickScript [''#btn'']])
           (DocQuerySelector ''#btn'') = Inr None"
    by (simp add: stale_page_def)
  from click_reports_success_without_click [OF h1 h2 h3 h4 h5 h6] h1
  show ?thesis by (simp add: after_wait_def click_waits_def)
qed

subsection \<open>The click script\<close>

text \<open>The script on a link: the target is set, and the click follows if that completes.\<close>

lemma js_code_link:
  assumes "ret_handle_opt E t (DocQuerySelector selector) = Inr (Some el)"
    and "toLowerCase (dom_prop E (t @ [DocQuerySelector selector]) el ''tagName'') = ''a''"
  shows "js_code E selector t =
        (case ret_unit E (t @ [DocQuerySelector selector]) (SetProperty el ''target'' ''_self'') of
           Some e \<Rightarrow> (Raised e, t @ [DocQuerySelector selector, SetProperty el ''target'' ''_self''])
         | None \<Rightarrow>
            (case ret_unit E (t @ [DocQuerySelector selector, SetProperty el ''target'' ''_self''])
                    (DomClick el) of
               Some e \<Rightarrow> Raised e
             | None \<Rightarrow> Returned (''Executed JavaScript Click on element with selector: '' @ selector),
             t @ [DocQuerySelector selector, SetProperty el ''target'' ''_self'', DomClick el]))"
  using assms
  by (simp add: js_code_def document_querySelector_def set_property_def element_click_def
      get_property_def run split: option.splits)

lemma perform_javascript_click_started:
  assumes "ret_unit E t (PageEvaluate pg ClickScript [selector]) = None"
  shows "perform_javascript_click E pg selector t =
     io_try (io_bind (js_code E selector) (\<lambda>result. io_return (Some result)))
       (\<lambda>e. io_return None) (t @ [PageEvaluate pg ClickScript [selector]])"
  using assms
  by (simp add: perform_javascript_click_def page_evaluate_def run)

lemma perform_javascript_click_resolves:
  assumes "ret_unit E t (PageEvaluate pg ClickScript [selector]) = None"
  shows "\<exists>rest. snd (perform_javascript_click E pg selector t) =
     t @ [PageEvaluate pg ClickScript [selector], DocQuerySelector selector] @ rest"
proof -
  have "starts (DocQuerySelector selector)
     (io_try (io_bind (js_code E selector) (\<lambda>result. io_return (Some result)))
       (\<lambda>e. io_return (None :: string option)))"
    by (intro starts_try starts_bind starts_js_code adds_intros)
  from startsD [OF this, of "t @ [PageEvaluate pg ClickScript [selector]]"]
  show ?thesis
    by (simp add: perform_javascript_click_started [OF assms])
qed

lemma perform_javascript_click_link:
  assumes "ret_unit E t (PageEvaluate pg ClickScript [selector]) = None"
    and "ret_handle_opt E (t @ [PageEvaluate pg ClickScript [selector]]) (DocQuerySelector selector) = Inr (Some el)"
    and "toLowerCase (dom_prop E (t @ [PageEvaluate pg ClickScript [selector], DocQuerySelector selector]) el ''tagName'') = ''a''"
  shows "perform_javascript_click E pg selector t =
     (case ret_unit E (t @ [PageEvaluate pg ClickScript [selector], DocQuerySelector selector])
             (SetProperty el ''target'' ''_self'') of
        Some e \<Rightarrow> (Returned None,
           t @ [PageEvaluate pg ClickScript [selector], DocQuerySelector selector,
                SetProperty el ''target'' ''_self''])
      | None \<Rightarrow>
          (case ret_unit E (t @ [PageEvaluate pg ClickScript [selector], DocQuerySelector selector,
                                 SetProperty el ''target'' ''_self'']) (DomClick el) of
             Some e \<Rightarrow> Returned None
           | None \<Rightarrow> Returned (Some (''Executed JavaScript Click on element with selector: '' @ selector)),
           t @ [PageEvaluate pg ClickScript [selector], DocQuerySelector selector,
                SetProperty el ''target'' ''_self'', DomClick el]))"
proof -
  have tag: "toLowerCase (dom_prop E ((t @ [PageEvaluate pg ClickScript [selector]]) @ [DocQuerySelector selector]) el ''tagName'') = ''a''"
    using assms(3) by simp
  show ?thesis
    unfolding perform_javascript_click_started [OF assms(1)]
    by (simp add: io_try_bind js_code_link [OF assms(2) tag] io_try_return io_return_app
        split: option.splits)
qed

text \<open>
  C6. Take a generic click: the element attaches, is not an option, takes the focus, and
  the evaluation of the click script starts. The script is handed the selector string,
  not an element, and the next call in the log of \<open>do_click\<close> is the script's own
  \<open>document.querySelector\<close> on that selector. When the element it finds has the tag
  name \<open>a\<close> (in any letter case), the call after that sets its \<open>target\<close> to
  \<open>_self\<close>; the click is the next and last call and is made only when the assignment
  has completed.
\<close>

theorem generic_click_resolves_selector_and_retargets_links:
  assumes "ret_handle_opt E (after_wait w t) (WaitForSelector pg selector ''attached'' 2000) = Inr (Some h)"
    and "ret_str E (after_wait w t @ click_waits pg selector h) (ElementEvaluate h ''element => element.tagName.toLowerCase()'') = Inr tag"
    and "tag \<noteq> ''option''"
    and "ret_unit E (after_wait w t @ click_waits pg selector h @ [ElementEvaluate h ''element => element.tagName.toLowerCase()'']) (Focus h) = None"
    and "ret_unit E (after_wait w t @ click_waits pg selector h @ [ElementEvaluate h ''element => element.tagName.toLowerCase()'', Focus h])
           (PageEvaluate pg ClickScript [selector]) = None"
  shows "(\<exists>rest. snd (do_click E pg selector w t) =
            after_wait w t @ click_waits pg selector h @
            [ElementEvaluate h ''element => element.tagName.toLowerCase()'', Focus h, PageEvaluate pg ClickScript [selector],
             DocQuerySelector selector] @ rest) \<and>
    (ret_handle_opt E (after_wait w t @ click_waits pg selector h @
          [ElementEvaluate h ''element => element.tagName.toLowerCase()'', Focus h, PageEvaluate pg ClickScript [selector]])
        (DocQuerySelector selector) = Inr (Some el) \<longrightarrow>
     toLowerCase (dom_prop E (after_wait w t @ click_waits pg selector h @
          [ElementEvaluate h ''element => element.tagName.toLowerCase()'', Focus h, PageEvaluate pg ClickScript [selector],
           DocQuerySelector selector]) el ''tagName'') = ''a'' \<longrightarrow>
     do_click E pg selector w t =
       (Returned (msg_clicked selector),
        after_wait w t @ click_waits pg selector h @
        [ElementEvaluate h ''element => element.tagName.toLowerCase()'', Focus h, PageEvaluate pg ClickScript [selector],
         DocQuerySelector selector, SetProperty el ''target'' ''_self''] @
        (if ret_unit E (after_wait w t @ click_waits pg selector h @
               [ElementEvaluate h ''element => element.tagName.toLowerCase()'', Focus h, PageEvaluate pg ClickScript [selector],
                DocQuerySelector selector]) (SetProperty el ''target'' ''_self'') = None
         then [DomClick el] else [])))"
proof -
  let ?T = "after_wait w t @ click_waits pg selector h @ [ElementEvaluate h ''element => element.tagName.toLowerCase()'', Focus h]"
  have run1: "do_click E pg selector w t =
     (Returned (msg_clicked selector), snd (perform_javascript_click E pg selector ?T))"
    unfolding do_click_after_wait [of E pg selector w]
    using assms(1-4) by (rule do_click_generic)
  have first: "\<exists>rest. snd (do_click E pg selector w t) =
            after_wait w t @ click_waits pg selector h @
            [ElementEvaluate h ''element => element.tagName.toLowerCase()'', Focus h, PageEvaluate pg ClickScript [selector],
             DocQuerySelector selector] @ rest"
    using perform_javascript_click_resolves [OF assms(5)] run1 by simp
  have second: "do_click E pg selector w t =
       (Returned (msg_clicked selector),
        after_wait w t @ click_waits pg selector h @
        [ElementEvaluate h ''element => element.tagName.toLowerCase()'', Focus h, PageEvaluate pg ClickScript [selector],
         DocQuerySelector selector, SetProperty el ''target'' ''_self''] @
        (if ret_unit E (after_wait w t @ click_waits pg selector h @
               [ElementEvaluate h ''element => element.tagName.toLowerCase()'', Focus h, PageEvaluate pg ClickScript [selector],
                DocQuerySelector selector]) (SetProperty el ''target'' ''_self'') = None
         then [DomClick el] else []))"
    if q: "ret_handle_opt E (after_wait w t @ click_waits pg selector h @
          [ElementEvaluate h ''element => element.tagName.toLowerCase()'', Focus h, PageEvaluate pg ClickScript [selector]])
        (DocQuerySelector selector) = Inr (Some el)"
    and a: "toLowerCase (dom_prop E (after_wait w t @ click_waits pg selector h @
          [ElementEvaluate h ''element => element.tagName.toLowerCase()'', Focus h, PageEvaluate pg ClickScript [selector],
           DocQuerySelector selector]) el ''tagName'') = ''a''"
  proof -
    have q': "ret_handle_opt E (?T @ [PageEvaluate pg ClickScript [selector]])
        (DocQuerySelector selector) = Inr (Some el)"
      using q by simp
    have a': "toLowerCase (dom_prop E (?T @ [PageEvaluate pg ClickScript [selector],
           DocQuerySelector selector]) el ''tagName'') = ''a''"
      using a by simp
    show ?thesis
      unfolding run1 perform_javascript_click_link [OF assms(5) q' a']
      by (simp split: option.splits)
  qed
  from first second show ?thesis by blast
qed

theorem generic_click_resolves_selector_and_retargets_links_witness:
  "dom_prop demo_page
     [WaitForSelector 1 ''#link'' ''attached'' 2000, ScrollIntoViewIfNeeded 4 200,
      WaitForElementState 4 ''visible'' 200, ElementEvaluate 4 ''element => element.tagName.toLowerCase()'', Focus 4,
      PageEvaluate 1 ClickScript [''#link''], DocQuerySelector ''#link''] 4 ''tagName'' = ''A'' \<and>
   do_click demo_page 1 ''#link'' 0 [] =
     (Returned (msg_clicked ''#link''),
      [WaitForSelector 1 ''#link'' ''attached'' 2000, ScrollIntoViewIfNeeded 4 200,
       WaitForElementState 4 ''visible'' 200, ElementEvaluate 4 ''element => element.tagName.toLowerCase()'', Focus 4,
       PageEvaluate 1 ClickScript [''#link''], DocQuerySelector ''#link'',
       SetProperty 4 ''target'' ''_self'', DomClick 4])"
proof -
  have h1: "ret_handle_opt demo_page (after_wait 0 []) (WaitForSelector 1 ''#link'' ''attached'' 2000) = Inr (Some 4)"
    by (simp add: demo_page_def demo_elements_def)
  have h2: "ret_str demo_page (after_wait 0 [] @ click_waits 1 ''#link'' 4) (ElementEvaluate 4 ''element => element.tagName.toLowerCase()'') = Inr ''a''"
    by (simp add: demo_page_def demo_tag_lower)
  have h3: "''a'' \<noteq> ''option''"
    by simp
  have h4: "ret_unit demo_page (after_wait 0 [] @ click_waits 1 ''#link'' 4 @ [ElementEvaluate 4 ''element => element.tagName.toLowerCase()'']) (Focus 4) = None"
    by (simp add: demo_page_def)
  have h5: "ret_unit demo_page (after_wait 0 [] @ click_waits 1 ''#link'' 4 @ [ElementEvaluate 4 ''element => element.tagName.toLowerCase()'', Focus 4])
           (PageEvaluate 1 ClickScript [''#link'']) = None"
    by (simp add: demo_page_def)
  have h6: "ret_handle_opt demo_page (after_wait 0 [] @ click_waits 1 ''#link'' 4 @
          [ElementEvaluate 4 ''element => element.tagName.toLowerCase()'', Focus 4, PageEvaluate 1 ClickScript [''#link'']])
        (DocQuerySelector ''#link'') = Inr (Some 4)"
    by (simp add: demo_page_def demo_elements_def)
  have h7: "toLowerCase (dom_prop demo_page (after_wait 0 [] @ click_waits 1 ''#link'' 4 @
          [ElementEvaluate 4 ''element => element.tagName.toLowerCase()'', Focus 4, PageEvaluate 1 ClickScript [''#link''],
           DocQuerySelector ''#link'']) 4 ''tagName'') = ''a''"
    by (simp add: demo_page_def demo_tag_lower)
  have h8: "ret_unit demo_page (after_wait 0 [] @ click_waits 1 ''#link'' 4 @
               [ElementEvaluate 4 ''element => element.tagName.toLowerCase()'', Focus 4, PageEvaluate 1 ClickScript [''#link''],
                DocQuerySelector ''#link'']) (SetProperty 4 ''target'' ''_self'') = None"
    by (simp add: demo_page_def)
  have tagA: "dom_prop demo_page
     [WaitForSelector 1 ''#link'' ''attached'' 2000, ScrollIntoViewIfNeeded 4 200,
      WaitForElementState 4 ''visible'' 200, ElementEvaluate 4 ''element => element.tagName.toLowerCase()'', Focus 4,
      PageEvaluate 1 ClickScript [''#link''], DocQuerySelector ''#link''] 4 ''tagName'' = ''A''"
    by (simp add: demo_page_def demo_tag_def)
  from generic_click_resolves_selector_and_retargets_links [OF h1 h2 h3 h4 h5, of 4] h6 h7
  have "do_click demo_page 1 ''#link'' 0 [] =
       (Returned (msg_clicked ''#link''),
        after_wait 0 [] @ click_waits 1 ''#link'' 4 @
        [ElementEvaluate 4 ''element => element.tagName.toLowerCase()'', Focus 4, PageEvaluate 1 ClickScript [''#link''],
         DocQuerySelector ''#link'', SetProperty 4 ''target'' ''_self''] @
        (if ret_unit demo_page (after_wait 0 [] @ click_waits 1 ''#link'' 4 @
               [ElementEvaluate 4 ''element => element.tagName.toLowerCase()'', Focus 4, PageEvaluate 1 ClickScript [''#link''],
                DocQuerySelector ''#link'']) (SetProperty 4 ''target'' ''_self'') = None
         then [DomClick 4] else []))"
    by blast
  then show ?thesis using h8 tagA
    by (simp add: after_wait_def click_waits_def)
qed

subsection \<open>Claims about text entry\<close>

lemma msg_error_not_success: "msg_error_entering selector e \<noteq> msg_text_set txt selector'"
  by (simp add: msg_error_entering_def msg_text_set_def)

lemma msg_not_found_not_success: "msg_selector_not_found selector \<noteq> msg_text_set txt selector'"
  by (simp add: msg_selector_not_found_def msg_text_set_def)

lemmas entertext_run = do_entertext_def custom_fill_element_def page_evaluate_def fill_script_def
  document_querySelector_def set_property_def deref_def

text \<open>Once the element is found and filled, what is left is the nudge, inside the \<open>try\<close>.\<close>

lemma do_entertext_found:
  assumes "ret_handle_opt E t (QuerySelector pg selector) = Inr (Some h)"
    and "(if ukf then io_bind (focus E h) (\<lambda>_. keyboard_type E pg txt (Some 2))
          else custom_fill_element E pg selector txt) (t @ [QuerySelector pg selector]) = (Returned (), t2)"
  shows "do_entertext E pg selector txt ukf t =
     io_try
       (io_bind (focus E h) (\<lambda>_.
        io_bind (keyboard_type E pg '' '' None) (\<lambda>_.
        io_bind (asyncio_sleep 1) (\<lambda>_.
        io_return (msg_text_set txt selector)))))
       (\<lambda>e. io_return (msg_error_entering selector e)) t2"
proof -
  have "do_entertext E pg selector txt ukf t =
     io_try
       (io_bind (if ukf then io_bind (focus E h) (\<lambda>_. keyboard_type E pg txt (Some 2))
          else custom_fill_element E pg selector txt) (\<lambda>_.
        io_bind (focus E h) (\<lambda>_.
        io_bind (keyboard_type E pg '' '' None) (\<lambda>_.
        io_bind (asyncio_sleep 1) (\<lambda>_.
        io_return (msg_text_set txt selector))))))
       (\<lambda>e. io_return (msg_error_entering selector e)) (t @ [QuerySelector pg selector])"
    unfolding do_entertext_def
    by (subst io_try_bind)
       (simp add: query_selector_pw_def call_handle_opt_app of_sum_simps assms(1))
  also have "\<dots> = io_try
       (io_bind (focus E h) (\<lambda>_.
        io_bind (keyboard_type E pg '' '' None) (\<lambda>_.
        io_bind (asyncio_sleep 1) (\<lambda>_.
        io_return (msg_text_set txt selector)))))
       (\<lambda>e. io_return (msg_error_entering selector e)) t2"
    by (subst io_try_bind) (simp only: assms(2) prod.case outcome.case)
  finally show ?thesis .
qed

text \<open>
  C7. Let the element be found and let the fill, whichever of the two mechanisms the
  flag selects, complete at the log \<open>t2\<close>. Then the next call is always the focus on
  the element. The success message is returned exactly when the focus and the
  keystroke complete, and then the calls after the fill are the focus, one keystroke
  of a single space, and a sleep of one second, in this order and nothing else.
\<close>

theorem do_entertext_nudge_after_fill:
  assumes "ret_handle_opt E t (QuerySelector pg selector) = Inr (Some h)"
    and "(if ukf then io_bind (focus E h) (\<lambda>_. keyboard_type E pg txt (Some 2))
          else custom_fill_element E pg selector txt) (t @ [QuerySelector pg selector]) = (Returned (), t2)"
  shows "(\<exists>rest. snd (do_entertext E pg selector txt ukf t) = t2 @ Focus h # rest) \<and>
    (ret_unit E t2 (Focus h) = None \<longrightarrow>
     ret_unit E (t2 @ [Focus h]) (KeyboardType pg '' '' None) = None \<longrightarrow>
       do_entertext E pg selector txt ukf t =
         (Returned (msg_text_set txt selector), t2 @ [Focus h, KeyboardType pg '' '' None, Sleep 1])) \<and>
    (fst (do_entertext E pg selector txt ukf t) = Returned (msg_text_set txt selector) \<longrightarrow>
       snd (do_entertext E pg selector txt ukf t) = t2 @ [Focus h, KeyboardType pg '' '' None, Sleep 1])"
  unfolding do_entertext_found [OF assms]
  by (cases "ret_unit E t2 (Focus h)"; cases "ret_unit E (t2 @ [Focus h]) (KeyboardType pg '' '' None)")
     (simp_all add: run msg_error_not_success)

theorem do_entertext_nudge_after_fill_witness:
  "do_entertext demo_page 1 ''#name'' ''alice'' False [] =
     (Returned (msg_text_set ''alice'' ''#name''),
      [QuerySelector 1 ''#name'', PageEvaluate 1 FillScript [''#name'', ''alice''],
       DocQuerySelector ''#name'', SetProperty 5 ''value'' ''alice'',
       Focus 5, KeyboardType 1 '' '' None, Sleep 1]) \<and>
   do_entertext demo_page 1 ''#name'' ''alice'' True [] =
     (Returned (msg_text_set ''alice'' ''#name''),
      [QuerySelector 1 ''#name'', Focus 5, KeyboardType 1 ''alice'' (Some 2),
       Focus 5, KeyboardType 1 '' '' None, Sleep 1])"
proof -
  have q: "ret_handle_opt demo_page [] (QuerySelector 1 ''#name'') = Inr (Some 5)"
    by (simp add: demo_page_def demo_elements_def)
  have direct: "(if False then io_bind (focus demo_page 5) (\<lambda>_. keyboard_type demo_page 1 ''alice'' (Some 2))
          else custom_fill_element demo_page 1 ''#name'' ''alice'') ([] @ [QuerySelector 1 ''#name'']) =
        (Returned (), [QuerySelector 1 ''#name'', PageEvaluate 1 FillScript [''#name'', ''alice''],
           DocQuerySelector ''#name'', SetProperty 5 ''value'' ''alice''])"
    by (simp add: entertext_run run demo_page_def demo_elements_def)
  have typed: "(if True then io_bind (focus demo_page 5) (\<lambda>_. keyboard_type demo_page 1 ''alice'' (Some 2))
          else custom_fill_element demo_page 1 ''#name'' ''alice'') ([] @ [QuerySelector 1 ''#name'']) =
        (Returned (), [QuerySelector 1 ''#name'', Focus 5, KeyboardType 1 ''alice'' (Some 2)])"
    by (simp add: run demo_page_def)
  have ok: "\<And>t c. ret_unit demo_page t c = None"
    by (simp add: demo_page_def)
  from do_entertext_nudge_after_fill [OF q direct] do_entertext_nudge_after_fill [OF q typed] ok
  show ?thesis by simp
qed

lemma do_entertext_direct_keystrokes:
  "\<exists>new. snd (do_entertext E pg selector txt False t) = t @ new \<and>
       (filter is_keystroke new = [] \<or> filter is_keystroke new = [KeyboardType pg '' '' None])"
  by (simp add: entertext_run run of_sum_def split: sum.splits option.splits)

lemma do_entertext_direct_success:
  assumes "fst (do_entertext E pg selector txt False t) = Returned (msg_text_set txt selector)"
  shows "\<exists>h h'. ret_handle_opt E t (QuerySelector pg selector) = Inr (Some h) \<and>
          ret_handle_opt E (t @ [QuerySelector pg selector, PageEvaluate pg FillScript [selector, txt]])
            (DocQuerySelector selector) = Inr (Some h') \<and>
          snd (do_entertext E pg selector txt False t) =
            t @ [QuerySelector pg selector, PageEvaluate pg FillScript [selector, txt],
                 DocQuerySelector selector, SetProperty h' ''value'' txt,
                 Focus h, KeyboardType pg '' '' None, Sleep 1]"
  using assms
  by (auto simp add: entertext_run run of_sum_def msg_error_not_success msg_not_found_not_success
      split: sum.splits option.splits)

text \<open>
  C8. The parameter \<open>use_keyboard_fill\<close> defaults to \<open>False\<close>, and this is the mode
  \<open>entertext\<close> runs \<open>do_entertext\<close> in. In this mode, whatever the page answers, the
  calls made hold at most one keystroke, the single space without a delay. When the
  success message is returned, the calls are exactly: the query for the element, the
  evaluation of the fill script with the selector and the text, the script's own
  query, the assignment of exactly the text to the \<open>value\<close> of the element the script
  found, the focus, the space keystroke and the sleep.
\<close>

theorem direct_assignment_default_only_trailing_keystroke:
  "use_keyboard_fill_default = False \<and>
   (current_page E t = Some pg \<longrightarrow>
      fst (entertext E entry t) =
      fst (do_entertext E pg (query_selector entry) (entry_text entry) False
             (t @ [GetCurrentPage, HighlightElement (query_selector entry) True]))) \<and>
   (\<exists>new. snd (do_entertext E pg selector txt False t) = t @ new \<and>
       (filter is_keystroke new = [] \<or> filter is_keystroke new = [KeyboardType pg '' '' None])) \<and>
   (fst (do_entertext E pg selector txt False t) = Returned (msg_text_set txt selector) \<longrightarrow>
      (\<exists>h h'. ret_handle_opt E t (QuerySelector pg selector) = Inr (Some h) \<and>
          ret_handle_opt E (t @ [QuerySelector pg selector, PageEvaluate pg FillScript [selector, txt]])
            (DocQuerySelector selector) = Inr (Some h') \<and>
          snd (do_entertext E pg selector txt False t) =
            t @ [QuerySelector pg selector, PageEvaluate pg FillScript [selector, txt],
                 DocQuerySelector selector, SetProperty h' ''value'' txt,
                 Focus h, KeyboardType pg '' '' None, Sleep 1]))"
  using entertext_page [of E t pg entry] do_entertext_direct_keystrokes [of E pg selector "txt" t]
    do_entertext_direct_success [of E pg selector "txt" t]
  by (simp add: use_keyboard_fill_default_def)

theorem direct_assignment_default_only_trailing_keystroke_witness:
  "current_page demo_page [] = Some 1 \<and>
   fst (entertext demo_page \<lparr>query_selector = ''#name'', entry_text = ''alice''\<rparr> []) =
     Returned (msg_text_set ''alice'' ''#name'') \<and>
   snd (do_entertext demo_page 1 ''#name'' ''alice'' False []) =
     [QuerySelector 1 ''#name'', PageEvaluate 1 FillScript [''#name'', ''alice''],
      DocQuerySelector ''#name'', SetProperty 5 ''value'' ''alice'',
      Focus 5, KeyboardType 1 '' '' None, Sleep 1] \<and>
   filter is_keystroke (snd (do_entertext demo_page 1 ''#name'' ''alice'' False []))
     = [KeyboardType 1 '' '' None]"
proof -
  have pg: "current_page demo_page [] = Some 1"
    by (simp add: demo_page_def)
  have run1: "do_entertext demo_page 1 ''#name'' ''alice'' False [] =
     (Returned (msg_text_set ''alice'' ''#name''),
      [QuerySelector 1 ''#name'', PageEvaluate 1 FillScript [''#name'', ''alice''],
       DocQuerySelector ''#name'', SetProperty 5 ''value'' ''alice'',
       Focus 5, KeyboardType 1 '' '' None, Sleep 1])"
    by (simp add: entertext_run run demo_page_def demo_elements_def)
  have run2: "fst (do_entertext demo_page 1 ''#name'' ''alice'' False
                 ([] @ [GetCurrentPage, HighlightElement ''#name'' True])) =
     Returned (msg_text_set ''alice'' ''#name'')"
    by (simp add: entertext_run run demo_page_def demo_elements_def)
  from direct_assignment_default_only_trailing_keystroke
         [of demo_page "[]" 1 "\<lparr>query_selector = ''#name'', entry_text = ''alice''\<rparr>" "''#name''" "''alice''"]
       pg run1 run2
  show ?thesis by simp
qed

subsection \<open>Claims about the missing page\<close>

text \<open>
  C3, as the code has it. With no page open \<open>click\<close> raises a \<open>ValueError\<close>, while
  \<open>entertext\<close> returns an error message, as its docstring says. With a page open
  \<open>click\<close> returns a message, and \<open>entertext\<close> returns a message in every case: the
  missing page under \<open>click\<close> is the only condition that makes either of them raise.
\<close>

theorem no_page_click_raises_entertext_returns:
  "(current_page E t = None \<longrightarrow>
      click E selector w t = (Raised (ValueError ''No active page found. OpenURL command opens a new page.''), t @ [GetCurrentPage]) \<and>
      entertext E entry t = (Returned ''Error: No active page found. OpenURL command opens a new page.'', t @ [GetCurrentPage])) \<and>
   (current_page E t \<noteq> None \<longrightarrow> (\<exists>s. fst (click E selector w t) = Returned s)) \<and>
   (\<exists>s. fst (entertext E entry t) = Returned s)"
proof (intro conjI impI)
  assume "current_page E t \<noteq> None"
  then obtain pg where "current_page E t = Some pg" by blast
  then show "\<exists>s. fst (click E selector w t) = Returned s"
    by (simp add: click_page do_click_returns)
qed (simp_all add: click_no_page entertext_no_page entertext_returns)

theorem no_page_click_raises_entertext_returns_witness:
  "current_page no_page [] = None \<and>
   click no_page ''#btn'' 0 [] = (Raised (ValueError ''No active page found. OpenURL command opens a new page.''), [GetCurrentPage]) \<and>
   current_page demo_page [] \<noteq> None \<and>
   (\<exists>s. fst (click demo_page ''#btn'' 0 []) = Returned s) \<and>
   (\<exists>s. fst (entertext demo_page \<lparr>query_selector = ''#name'', entry_text = ''alice''\<rparr> []) = Returned s)"
proof -
  have h1: "current_page no_page [] = None"
    by (simp add: no_page_def)
  have h2: "current_page demo_page [] \<noteq> None"
    by (simp add: demo_page_def)
  from no_page_click_raises_entertext_returns
         [of no_page "[]" "''#btn''" 0 "\<lparr>query_selector = ''#name'', entry_text = ''alice''\<rparr>"]
       no_page_click_raises_entertext_returns
         [of demo_page "[]" "''#btn''" 0 "\<lparr>query_selector = ''#name'', entry_text = ''alice''\<rparr>"]
       h1 h2
  show ?thesis by simp
qed

text \<open>
  The claim as stated fails for \<open>entertext\<close>: with no page open it does not raise, it
  returns a message.
\<close>

theorem entertext_without_page_returns_message:
  "current_page no_page [] = None \<and>
   entertext no_page \<lparr>query_selector = ''#name'', entry_text = ''alice''\<rparr> [] =
     (Returned ''Error: No active page found. OpenURL command opens a new page.'', [GetCurrentPage])"
proof -
  have "current_page no_page [] = None"
    by (simp add: no_page_def)
  then show ?thesis
    by (simp add: entertext_no_page)
qed

subsection \<open>Claims about the batch\<close>








end
